theory Spec2Isabelle
  imports Complex_Main
begin

section \<open>JavaScript values and strings\<close>

text \<open>
  The provider (class \<open>ClaudeChatProvider\<close>) exchanges JSON payloads with the client and
  with the assistant CLI. A decoded JSON value is a \<open>json\<close>; a JavaScript expression that
  may be \<open>undefined\<close> is a \<open>json option\<close> with \<open>None\<close> for \<open>undefined\<close>. A string is the list
  of its code units, an object the list of its properties, a number a rational (the
  rounding of IEEE doubles plays no part in the properties below).
\<close>

datatype json =
    JNull
  | JBool bool
  | JNum rat
  | JStr string
  | JArr "json list"
  | JObj "(string \<times> json) list"

text \<open>JavaScript truthiness, as \<open>if (x)\<close>, \<open>x && y\<close> and \<open>x || y\<close> test it.\<close>

fun truthy :: "json option \<Rightarrow> bool" where
  "truthy None = False"
| "truthy (Some JNull) = False"
| "truthy (Some (JBool b)) = b"
| "truthy (Some (JNum n)) = (n \<noteq> 0)"
| "truthy (Some (JStr s)) = (s \<noteq> [])"
| "truthy (Some (JArr xs)) = True"
| "truthy (Some (JObj kvs)) = True"

text \<open>
  Property access \<open>v.k\<close> on a value that is neither \<open>null\<close> nor \<open>undefined\<close>: the property
  of an object, \<open>undefined\<close> on every other value (none of the names the provider reads is
  a built-in property of a string, number, boolean or array).
\<close>

fun getprop :: "json \<Rightarrow> string \<Rightarrow> json option" where
  "getprop (JObj kvs) k = map_of kvs k"
| "getprop v k = None"

text \<open>\<open>x || d\<close> on values.\<close>

definition js_or :: "json option \<Rightarrow> json \<Rightarrow> json" where
  "js_or x d = (if truthy x then the x else d)"

text \<open>
  An object literal \<open>{k1: e1, ...}\<close> whose property values may be \<open>undefined\<close>: such a
  property is left out, as \<open>JSON.stringify\<close> leaves it out of what is sent and stored.
\<close>

fun obj_of :: "(string \<times> json option) list \<Rightarrow> (string \<times> json) list" where
  "obj_of [] = []"
| "obj_of ((k, None) # kvs) = obj_of kvs"
| "obj_of ((k, Some v) # kvs) = (k, v) # obj_of kvs"

text \<open>
  \<open>String.prototype.trim\<close> removes white space and line terminators at both ends; among
  the code units below 256 these are tab, line feed, vertical tab, form feed, carriage
  return, space and the no-break space.
\<close>

definition is_ws :: "char \<Rightarrow> bool" where
  "is_ws c = (c \<in> set [CHR 0x09, CHR 0x0A, CHR 0x0B, CHR 0x0C, CHR 0x0D, CHR 0x20, CHR 0xA0])"

definition trim :: "string \<Rightarrow> string" where
  "trim s = rev (dropWhile is_ws (rev (dropWhile is_ws s)))"

text \<open>\<open>s.startsWith(p)\<close> and \<open>s.includes(p)\<close>.\<close>

fun startsWith :: "string \<Rightarrow> string \<Rightarrow> bool" where
  "startsWith s [] = True"
| "startsWith [] (p # ps) = False"
| "startsWith (c # cs) (p # ps) = (c = p \<and> startsWith cs ps)"

fun str_includes :: "string \<Rightarrow> string \<Rightarrow> bool" where
  "str_includes [] p = (p = [])"
| "str_includes (c # cs) p = (startsWith (c # cs) p \<or> str_includes cs p)"

text \<open>\<open>s.split(d)\<close> for a one-character separator: never empty, the last piece is what follows
  the last separator.\<close>

fun split_on :: "char \<Rightarrow> string \<Rightarrow> string list" where
  "split_on d [] = [[]]"
| "split_on d (c # cs) =
     (if c = d then [] # split_on d cs
      else (case split_on d cs of [] \<Rightarrow> [[c]] | x # xs \<Rightarrow> (c # x) # xs))"

text \<open>\<open>s.toLowerCase()\<close> on code units below 256.\<close>

definition toLowerCase_char :: "char \<Rightarrow> char" where
  "toLowerCase_char c =
     (let n = (of_char c :: nat)
      in if (65 \<le> n \<and> n \<le> 90) \<or> (192 \<le> n \<and> n \<le> 222 \<and> n \<noteq> 215)
         then char_of (n + 32) else c)"

definition toLowerCase :: "string \<Rightarrow> string" where
  "toLowerCase s = map toLowerCase_char s"

text \<open>A number in a template literal: decimal digits, a minus sign before a negative one.\<close>

definition digit_char :: "nat \<Rightarrow> char" where
  "digit_char n = ''0123456789'' ! (n mod 10)"

fun show_nat :: "nat \<Rightarrow> string" where
  "show_nat n = (if n < 10 then [digit_char n] else show_nat (n div 10) @ [digit_char n])"

declare show_nat.simps [simp del]

definition show_int :: "int \<Rightarrow> string" where
  "show_int i = (if i < 0 then CHR ''-'' # show_nat (nat (- i)) else show_nat (nat i))"

section \<open>The provider\<close>

text \<open>
  A message handed to \<open>_postMessage\<close>, and an entry of \<open>_currentConversation\<close>: the object
  \<open>{timestamp, messageType, data}\<close> that \<open>_sendAndSaveMessage\<close> builds, kept as its
  property list because the store hands back whatever objects a file holds.
\<close>

datatype message = Message (mtype: string) (mdata: json)

type_synonym entry = "(string \<times> json) list"

text \<open>
  The record a conversation file holds (\<open>conversationData\<close> of
  \<open>_saveCurrentConversation\<close>), and a file of the conversations directory: one that
  decodes to such a record, or one that cannot be read or decoded. The directory is
  flat: a file name is the key, as it is for the identifiers the CLI assigns, which hold
  no path separator.
\<close>

record conversationData =
  sessionId :: "string option"
  title :: string
  startTime :: "string option"
  endTime :: string
  messageCount :: nat
  totalCostD :: rat
  totalTokens :: "rat \<times> rat"
  messages :: "entry list"

datatype stored = Corrupt | Stored conversationData

text \<open>
  A resolver held in \<open>_pendingPermissions\<close>: the \<open>resolve\<close> of the promise that
  \<open>handlePermissionRequest\<close> returned for the given request id.
\<close>

datatype resolver = PromiseResolve string

text \<open>
  The state of a provider instance, followed by what it has done to its surroundings:
  the messages handed to \<open>_postMessage\<close>, the subprocesses spawned (argument list and the
  text written to stdin), the process handles sent SIGTERM, the conversations directory
  in the order \<open>readdirSync\<close> lists it, and the resolvers invoked with their argument. A
  process handle is the index of its spawn. \<open>rawOutput\<close> and \<open>errorOutput\<close> are the buffers
  of the running subprocess's handlers. \<open>_permissions\<close> is kept in step with its file by
  \<open>_savePermissions\<close>, so one field stands for both.
\<close>

record provider =
  currentClaudeProcess :: "nat option"
  currentSessionId :: "string option"
  selectedModel :: string
  isProcessing :: bool
  totalCost :: rat
  totalTokensInput :: rat
  totalTokensOutput :: rat
  requestCount :: nat
  currentConversation :: "entry list"
  conversationStartTime :: "string option"
  permissions :: "string \<Rightarrow> bool option"
  pendingPermissions :: "string \<Rightarrow> resolver option"
  mcpConfigPath :: string
  mcpConfigExists :: bool
  rawOutput :: string
  errorOutput :: string
  posted :: "message list"
  spawned :: "(string list \<times> string) list"
  killed :: "nat list"
  conversations :: "(string \<times> stored) list"
  resolved :: "(resolver \<times> bool) list"

text \<open>
  A reading of the clock: \<open>new Date().toISOString()\<close> and \<open>Date.now()\<close>. Each call of a
  method or handler below is given one reading.
\<close>

record clock =
  iso :: string
  ms :: nat

definition postMessage :: "message \<Rightarrow> provider \<Rightarrow> provider" where
  "postMessage m p = p\<lparr>posted := posted p @ [m]\<rparr>"

definition sendAndSaveMessage :: "clock \<Rightarrow> message \<Rightarrow> provider \<Rightarrow> provider" where
  "sendAndSaveMessage now m p =
     (let p1 = (if length (currentConversation p) = 0
                then p\<lparr>conversationStartTime := Some (iso now)\<rparr> else p);
          timestampedMessage =
            [(''timestamp'', JStr (iso now)), (''messageType'', JStr (mtype m)),
             (''data'', mdata m)];
          p2 = p1\<lparr>currentConversation := currentConversation p1 @ [timestampedMessage]\<rparr>
      in postMessage m p2)"

text \<open>\<open>if (this._currentSessionId)\<close>: an identifier that is neither \<open>null\<close> nor empty.\<close>

definition has_id :: "string option \<Rightarrow> bool" where
  "has_id sid = (case sid of None \<Rightarrow> False | Some s \<Rightarrow> s \<noteq> [])"

subsection \<open>sendMessage\<close>

text \<open>The argument list, block by block as \<open>sendMessage\<close> pushes it.\<close>

definition stream_args :: "string list" where
  "stream_args = [''-p'', ''--output-format'', ''stream-json'', ''--verbose'']"

definition mcp_args :: "provider \<Rightarrow> string list" where
  "mcp_args p =
     (if mcpConfigExists p
      then [''--mcp-config'', mcpConfigPath p,
            ''--allowedTools'', ''mcp__claude-code-chat-permissions__approval_prompt'',
            ''--permission-prompt-tool'', ''mcp__claude-code-chat-permissions__approval_prompt'']
      else [])"

definition continue_args :: "provider \<Rightarrow> string list" where
  "continue_args p =
     (if has_id (currentSessionId p)
         \<and> \<not> startsWith (the (currentSessionId p)) ''session_''
         \<and> \<not> startsWith (the (currentSessionId p)) ''conversation_''
      then [''--resume'', the (currentSessionId p)]
      else if length (currentConversation p) > 0 then [''--continue'']
      else [])"

definition model_args :: "provider \<Rightarrow> string list" where
  "model_args p =
     (if selectedModel p \<noteq> [] \<and> selectedModel p \<noteq> ''default''
      then [''--model'', selectedModel p] else [])"

definition think_args :: "bool \<Rightarrow> string list" where
  "think_args thinkingMode = (if thinkingMode then [''--think''] else [])"

definition busy_error :: message where
  "busy_error =
     Message ''error''
       (JStr ''Already processing a message. Please wait or stop the current request.'')"

definition sendMessage :: "clock \<Rightarrow> string \<Rightarrow> bool \<Rightarrow> bool \<Rightarrow> provider \<Rightarrow> provider" where
  "sendMessage now message planMode thinkingMode p =
     (if isProcessing p then postMessage busy_error p
      else
        let p1 = (if \<not> has_id (currentSessionId p)
                  then p\<lparr>conversationStartTime := Some (iso now)\<rparr> else p);
            p2 = sendAndSaveMessage now (Message ''userInput'' (JStr message)) p1;
            p3 = postMessage (Message ''setProcessing'' (JObj [(''isProcessing'', JBool True)]))
                   (p2\<lparr>isProcessing := True\<rparr>);
            args = stream_args @ mcp_args p3 @ continue_args p3 @ model_args p3
                   @ think_args thinkingMode;
            actualMessage = (if planMode then ''plan'' @ [CHR 0x0A, CHR 0x0A] @ message else message)
        in p3\<lparr>currentClaudeProcess := Some (length (spawned p3)),
               spawned := spawned p3 @ [(args, actualMessage @ [CHR 0x0A])],
               rawOutput := [], errorOutput := []\<rparr>)"

text \<open>The argument list of the subprocess spawned last.\<close>

definition spawn_args :: "provider \<Rightarrow> string list" where
  "spawn_args p = fst (last (spawned p))"

subsection \<open>Saving and loading conversations\<close>

text \<open>The title \<open>_saveCurrentConversation\<close> derives from the first user message.\<close>

definition conversation_title :: "entry list \<Rightarrow> string" where
  "conversation_title conv =
     (case find (\<lambda>msg. map_of msg ''messageType'' = Some (JStr ''userInput'')) conv of
        None \<Rightarrow> ''Untitled Conversation''
      | Some firstUserMessage \<Rightarrow>
          (case map_of firstUserMessage ''data'' of
             Some (JStr t) \<Rightarrow>
               if t \<noteq> [] then trim (take 50 t) @ (if length t > 50 then ''...'' else [])
               else ''Untitled Conversation''
           | _ \<Rightarrow> ''Untitled Conversation''))"

text \<open>\<open>fs.writeFileSync\<close> on the conversations directory: an existing file is overwritten
  where it stands, a new one is listed last. (A write that fails is caught and logged by
  the caller and changes nothing; the directory modelled here takes every write.)\<close>

fun writeFile :: "string \<Rightarrow> stored \<Rightarrow> (string \<times> stored) list \<Rightarrow> (string \<times> stored) list" where
  "writeFile f c [] = [(f, c)]"
| "writeFile f c ((g, d) # fs) = (if g = f then (f, c) # fs else (g, d) # writeFile f c fs)"

definition saveCurrentConversation :: "clock \<Rightarrow> provider \<Rightarrow> provider" where
  "saveCurrentConversation now p =
     (if \<not> has_id (currentSessionId p) \<or> length (currentConversation p) = 0 then p
      else
        let conversationData =
              \<lparr>sessionId = currentSessionId p,
               title = conversation_title (currentConversation p),
               startTime = conversationStartTime p,
               endTime = iso now,
               messageCount = length (currentConversation p),
               totalCostD = totalCost p,
               totalTokens = (totalTokensInput p, totalTokensOutput p),
               messages = currentConversation p\<rparr>;
            filename = (if has_id (currentSessionId p)
                        then the (currentSessionId p) @ ''.json''
                        else ''conversation_'' @ show_nat (ms now) @ ''.json'')
        in p\<lparr>conversations := writeFile filename (Stored conversationData) (conversations p)\<rparr>)"

text \<open>
  \<open>loadConversation\<close> returns the record, or \<open>None\<close> for \<open>null\<close>. A file that cannot be
  decoded does not match by content; chosen by its name, it makes the second read throw,
  which is caught.
\<close>

definition loadConversation :: "string \<Rightarrow> provider \<Rightarrow> conversationData option \<times> provider" where
  "loadConversation sid p =
     (case find (\<lambda>(f, c). str_includes f sid
                    \<or> (case c of Corrupt \<Rightarrow> False | Stored d \<Rightarrow> sessionId d = Some sid))
             (conversations p) of
        None \<Rightarrow> (None, p)
      | Some (f, Corrupt) \<Rightarrow> (None, p)
      | Some (f, Stored conversation) \<Rightarrow>
          (Some conversation,
           p\<lparr>currentSessionId := sessionId conversation,
             currentConversation := messages conversation,
             conversationStartTime := startTime conversation,
             totalCost := totalCostD conversation,
             totalTokensInput := fst (totalTokens conversation),
             totalTokensOutput := snd (totalTokens conversation),
             requestCount :=
               length (filter (\<lambda>m. map_of m ''type'' = Some (JStr ''userInput''))
                         (messages conversation))\<rparr>))"

subsection \<open>Stopping\<close>

definition stopCurrentRequest :: "clock \<Rightarrow> provider \<Rightarrow> provider" where
  "stopCurrentRequest now p =
     (case currentClaudeProcess p of
        None \<Rightarrow> p
      | Some h \<Rightarrow>
          sendAndSaveMessage now (Message ''error'' (JStr ''Claude code was stopped.''))
            (p\<lparr>killed := killed p @ [h], currentClaudeProcess := None, isProcessing := False\<rparr>))"

subsection \<open>The stream decoder\<close>

text \<open>
  A handler either returns or throws a \<open>TypeError\<close> (a property read on \<open>null\<close> or
  \<open>undefined\<close>, a call of something that is no function, an iteration over something
  that is not iterable); either way the provider is as the statements run so far left it.
\<close>

datatype 'a completion = Returns 'a | Throws 'a

text \<open>
  The identifier stored by \<open>this._currentSessionId = jsonData.session_id\<close>. The CLI sends
  a string; the identifier type holds no other JSON value, which is read as none.
\<close>

fun sid_of :: "json option \<Rightarrow> string option" where
  "sid_of (Some (JStr s)) = Some s"
| "sid_of v = None"

text \<open>
  The number added by \<open>total += x || 0\<close>. The CLI sends numbers; any other value is read
  as \<open>0\<close>.
\<close>

fun num_or0 :: "json option \<Rightarrow> rat" where
  "num_or0 (Some (JNum n)) = n"
| "num_or0 v = 0"

text \<open>\<open>v[0]\<close> on a value that is neither \<open>null\<close> nor \<open>undefined\<close>.\<close>

fun index0 :: "json \<Rightarrow> json option" where
  "index0 (JArr xs) = (case xs of [] \<Rightarrow> None | x # _ \<Rightarrow> Some x)"
| "index0 (JStr s) = (case s of [] \<Rightarrow> None | c # _ \<Rightarrow> Some (JStr [c]))"
| "index0 (JObj kvs) = map_of kvs ''0''"
| "index0 v = None"

text \<open>
  The loop \<open>for (const todo of content.input.todos)\<close> over the items already taken from
  the iterable; \<open>tostr\<close> is the conversion of a value to a string that a template literal
  applies, \<open>None\<close> stands for a throw.
\<close>

fun todo_lines :: "(json option \<Rightarrow> string) \<Rightarrow> json list \<Rightarrow> string \<Rightarrow> string option" where
  "todo_lines tostr [] toolInput = Some toolInput"
| "todo_lines tostr (todo # todos) toolInput =
     (if todo = JNull then None
      else
        let status = (if getprop todo ''status'' = Some (JStr ''completed'') then ''[DONE]''
                      else if getprop todo ''status'' = Some (JStr ''in_progress'')
                           then ''[IN PROGRESS]'' else ''[TODO]'')
        in todo_lines tostr todos
             (toolInput @ [CHR 0x0A] @ status @ '' '' @ tostr (getprop todo ''content'')
                @ '' (priority: '' @ tostr (getprop todo ''priority'') @ '')''))"

text \<open>The \<open>toolInput\<close> text of a \<open>tool_use\<close> block.\<close>

definition tool_input :: "(json option \<Rightarrow> string) \<Rightarrow> json \<Rightarrow> string option" where
  "tool_input tostr content =
     (if getprop content ''name'' = Some (JStr ''TodoWrite'')
         \<and> truthy (getprop content ''input'')
         \<and> truthy (getprop (the (getprop content ''input'')) ''todos'')
      then (case the (getprop (the (getprop content ''input'')) ''todos'') of
              JArr todos \<Rightarrow> todo_lines tostr todos ''Todo List Update:''
            | JStr cs \<Rightarrow> todo_lines tostr (map (\<lambda>c. JStr [c]) cs) ''Todo List Update:''
            | _ \<Rightarrow> None)
      else Some [])"

text \<open>The callback of \<open>jsonData.message.content.forEach\<close>.\<close>

definition processContent ::
  "(json option \<Rightarrow> string) \<Rightarrow> clock \<Rightarrow> json \<Rightarrow> provider \<Rightarrow> provider completion" where
  "processContent tostr now content p =
     (if content = JNull then Throws p
      else if getprop content ''type'' = Some (JStr ''text'') then
        (case getprop content ''text'' of
           Some (JStr text) \<Rightarrow>
             if trim text \<noteq> []
             then Returns (sendAndSaveMessage now (Message ''output'' (JStr (trim text))) p)
             else Returns p
         | _ \<Rightarrow> Throws p)
      else if getprop content ''type'' = Some (JStr ''thinking'') then
        (case getprop content ''thinking'' of
           Some (JStr thinking) \<Rightarrow>
             if trim thinking \<noteq> []
             then Returns (sendAndSaveMessage now (Message ''thinking'' (JStr (trim thinking))) p)
             else Returns p
         | _ \<Rightarrow> Throws p)
      else if getprop content ''type'' = Some (JStr ''tool_use'') then
        (case tool_input tostr content of
           None \<Rightarrow> Throws p
         | Some toolInput \<Rightarrow>
             Returns (sendAndSaveMessage now
               (Message ''toolUse''
                  (JObj (obj_of
                     [(''toolInfo'', getprop content ''name''),
                      (''toolInput'', Some (JStr toolInput)),
                      (''rawInput'', getprop content ''input''),
                      (''toolName'', getprop content ''name''),
                      (''toolUseId'', getprop content ''tool_use_id'')]))) p))
      else Returns p)"

fun processContents ::
  "(json option \<Rightarrow> string) \<Rightarrow> clock \<Rightarrow> json list \<Rightarrow> provider \<Rightarrow> provider completion" where
  "processContents tostr now [] p = Returns p"
| "processContents tostr now (content # rest) p =
     (case processContent tostr now content p of
        Throws p' \<Rightarrow> Throws p'
      | Returns p' \<Rightarrow> processContents tostr now rest p')"

text \<open>The \<open>updateTokens\<close> payload of the \<open>assistant\<close> and \<open>result\<close> cases; \<open>cost\<close> is the
  value read for \<open>currentCost\<close>.\<close>

definition updateTokens_data :: "provider \<Rightarrow> json \<Rightarrow> json option \<Rightarrow> json" where
  "updateTokens_data p usage cost =
     JObj [(''totalTokensInput'', JNum (totalTokensInput p)),
           (''totalTokensOutput'', JNum (totalTokensOutput p)),
           (''currentInputTokens'', js_or (getprop usage ''input_tokens'') (JNum 0)),
           (''currentOutputTokens'', js_or (getprop usage ''output_tokens'') (JNum 0)),
           (''currentCost'', js_or cost (JNum 0)),
           (''requestCount'', JNum (of_nat (requestCount p))),
           (''cacheCreationTokens'', js_or (getprop usage ''cache_creation_input_tokens'') (JNum 0)),
           (''cacheReadTokens'', js_or (getprop usage ''cache_read_input_tokens'') (JNum 0))]"

definition processJsonStreamData ::
  "(json option \<Rightarrow> string) \<Rightarrow> clock \<Rightarrow> json \<Rightarrow> provider \<Rightarrow> provider completion" where
  "processJsonStreamData tostr now jsonData p =
     (if jsonData = JNull then Throws p
      else if getprop jsonData ''type'' = Some (JStr ''system'') then
        (if getprop jsonData ''subtype'' = Some (JStr ''init'')
         then Returns (sendAndSaveMessage now
                (Message ''sessionInfo''
                   (JObj (obj_of
                      [(''sessionId'', getprop jsonData ''session_id''),
                       (''tools'', Some (js_or (getprop jsonData ''tools'') (JArr []))),
                       (''mcpServers'', Some (js_or (getprop jsonData ''mcp_servers'') (JArr [])))])))
                (p\<lparr>currentSessionId := sid_of (getprop jsonData ''session_id'')\<rparr>))
         else Returns p)
      else if getprop jsonData ''type'' = Some (JStr ''user'') then
        (if truthy (getprop jsonData ''message'')
            \<and> truthy (getprop (the (getprop jsonData ''message'')) ''content'')
            \<and> truthy (index0 (the (getprop (the (getprop jsonData ''message'')) ''content'')))
         then
           let content = the (index0 (the (getprop (the (getprop jsonData ''message'')) ''content'')))
           in if getprop content ''type'' = Some (JStr ''tool_result'')
              then Returns (sendAndSaveMessage now
                     (Message ''toolResult''
                        (JObj (obj_of
                           [(''content'', Some (js_or (getprop content ''content'') (JStr []))),
                            (''isError'', Some (js_or (getprop content ''is_error'') (JBool False))),
                            (''toolUseId'', getprop content ''tool_use_id''),
                            (''toolName'', Some (js_or (getprop content ''name'') (JStr ''unknown'')))])))
                     p)
              else Returns p
         else Returns p)
      else if getprop jsonData ''type'' = Some (JStr ''permission_request'') then Returns p
      else if getprop jsonData ''type'' = Some (JStr ''assistant'') then
        (if truthy (getprop jsonData ''message'')
            \<and> getprop (the (getprop jsonData ''message'')) ''role'' = Some (JStr ''assistant'')
         then
           let message = the (getprop jsonData ''message'');
               p1 = (if truthy (getprop message ''usage'') then
                       let usage = the (getprop message ''usage'');
                           q = p\<lparr>totalTokensInput :=
                                   totalTokensInput p + num_or0 (getprop usage ''input_tokens''),
                                 totalTokensOutput :=
                                   totalTokensOutput p + num_or0 (getprop usage ''output_tokens''),
                                 requestCount := requestCount p + 1\<rparr>;
                           q' = sendAndSaveMessage now
                                  (Message ''updateTokens''
                                     (updateTokens_data q usage (getprop usage ''total_cost''))) q
                       in q'\<lparr>totalCost := totalCost q' + num_or0 (getprop usage ''total_cost'')\<rparr>
                     else p)
           in (case getprop message ''content'' of
                 Some (JArr contents) \<Rightarrow> processContents tostr now contents p1
               | _ \<Rightarrow> Throws p1)
         else Returns p)
      else if getprop jsonData ''type'' = Some (JStr ''final'') then
        (let p1 = (if truthy (getprop jsonData ''session_id'')
                   then p\<lparr>currentSessionId := sid_of (getprop jsonData ''session_id'')\<rparr> else p)
         in Returns (sendAndSaveMessage now
              (Message ''updateTotals''
                 (JObj [(''totalCost'', JNum (totalCost p1)),
                        (''totalTokensInput'', JNum (totalTokensInput p1)),
                        (''totalTokensOutput'', JNum (totalTokensOutput p1)),
                        (''requestCount'', JNum (of_nat (requestCount p1))),
                        (''totalDuration'', js_or (getprop jsonData ''duration'') (JNum 0)),
                        (''currentDuration'', js_or (getprop jsonData ''duration'') (JNum 0)),
                        (''currentCost'', js_or (getprop jsonData ''cost'') (JNum 0))])) p1))
      else if getprop jsonData ''type'' = Some (JStr ''result'') then
        (let p1 = (if truthy (getprop jsonData ''session_id'')
                   then p\<lparr>currentSessionId := sid_of (getprop jsonData ''session_id'')\<rparr> else p)
         in if truthy (getprop jsonData ''usage'')
            then Returns (sendAndSaveMessage now
                   (Message ''updateTokens''
                      (updateTokens_data p1 (the (getprop jsonData ''usage''))
                         (getprop jsonData ''total_cost_usd''))) p1)
            else Returns p1)
      else Returns p)"

text \<open>
  The body of the loop over the complete lines of stdout; \<open>parse\<close> is \<open>JSON.parse\<close>, with
  \<open>None\<close> for the \<open>SyntaxError\<close> it throws. The \<open>catch\<close> also takes what the dispatcher
  throws.
\<close>

definition stdout_line ::
  "(string \<Rightarrow> json option) \<Rightarrow> (json option \<Rightarrow> string) \<Rightarrow> clock \<Rightarrow> string \<Rightarrow> provider \<Rightarrow> provider" where
  "stdout_line parse tostr now line p =
     (if trim line \<noteq> [] then
        (case parse (trim line) of
           None \<Rightarrow> sendAndSaveMessage now (Message ''output'' (JStr (trim line))) p
         | Some jsonData \<Rightarrow>
             (case processJsonStreamData tostr now jsonData p of
                Returns p' \<Rightarrow> p'
              | Throws p' \<Rightarrow> sendAndSaveMessage now (Message ''output'' (JStr (trim line))) p'))
      else p)"

text \<open>The handler of \<open>stdout.on('data')\<close>: the last piece of the split is kept as the
  incomplete line.\<close>

definition stdout_data ::
  "(string \<Rightarrow> json option) \<Rightarrow> (json option \<Rightarrow> string) \<Rightarrow> clock \<Rightarrow> string \<Rightarrow> provider \<Rightarrow> provider" where
  "stdout_data parse tostr now chunk p =
     (let lines = split_on (CHR 0x0A) (rawOutput p @ chunk);
          p1 = p\<lparr>rawOutput := last lines\<rparr>
      in fold (stdout_line parse tostr now) (butlast lines) p1)"

definition stderr_data :: "string \<Rightarrow> provider \<Rightarrow> provider" where
  "stderr_data chunk p = p\<lparr>errorOutput := errorOutput p @ chunk\<rparr>"

text \<open>The handler of the subprocess's \<open>close\<close> event; \<open>code\<close> is \<open>None\<close> for the \<open>null\<close> of
  a process ended by a signal.\<close>

definition on_close :: "clock \<Rightarrow> int option \<Rightarrow> provider \<Rightarrow> provider" where
  "on_close now code p =
     (let p1 = postMessage (Message ''setProcessing'' (JObj [(''isProcessing'', JBool False)]))
                 (p\<lparr>isProcessing := False, currentClaudeProcess := None\<rparr>);
          p2 = (if code \<noteq> Some 0
                then sendAndSaveMessage now
                       (Message ''error''
                          (JStr (if trim (errorOutput p1) \<noteq> [] then trim (errorOutput p1)
                                 else ''Claude exited with code ''
                                      @ (case code of None \<Rightarrow> ''null'' | Some c \<Rightarrow> show_int c))))
                       p1
                else p1)
      in saveCurrentConversation now p2)"

subsection \<open>Permissions\<close>

text \<open>What \<open>handlePermissionRequest\<close> returns: a promise already resolved with \<open>true\<close>, or
  one that waits for the resolver stored under the request id.\<close>

datatype approval = ResolvedTrue | Awaiting string

definition handlePermissionRequest ::
  "clock \<Rightarrow> string \<Rightarrow> string \<Rightarrow> provider \<Rightarrow> approval \<times> provider" where
  "handlePermissionRequest now toolName command p =
     (let permissionKey = toolName @ '':'' @ command
      in if permissions p permissionKey = Some True then (ResolvedTrue, p)
         else
           let requestId = ''perm_'' @ show_nat (ms now);
               p1 = p\<lparr>pendingPermissions :=
                       (pendingPermissions p)(requestId \<mapsto> PromiseResolve requestId)\<rparr>
           in (Awaiting requestId,
               postMessage
                 (Message ''permissionRequest''
                    (JObj [(''id'', JStr requestId), (''tool'', JStr toolName),
                           (''command'', JStr command)])) p1))"

text \<open>
  \<open>handlePermissionResponse\<close>. What is found under \<open>id + '_data'\<close> can only be a resolver,
  a function, whose \<open>tool\<close> and \<open>command\<close> are \<open>undefined\<close>.
\<close>

definition handlePermissionResponse :: "string \<Rightarrow> bool \<Rightarrow> bool \<Rightarrow> provider \<Rightarrow> provider" where
  "handlePermissionResponse id' approved alwaysAllow p =
     (case pendingPermissions p id' of
        None \<Rightarrow> p
      | Some resolver \<Rightarrow>
          let p1 = p\<lparr>resolved := resolved p @ [(resolver, approved)],
                     pendingPermissions := (pendingPermissions p)(id' := None)\<rparr>
          in if approved \<and> alwaysAllow then
               (case pendingPermissions p1 (id' @ ''_data'') of
                  None \<Rightarrow> p1
                | Some data \<Rightarrow>
                    let permissionKey = ''undefined'' @ '':'' @ ''undefined''
                    in p1\<lparr>permissions := (permissions p1)(permissionKey \<mapsto> True)\<rparr>)
             else p1)"

subsection \<open>Workspace files\<close>

text \<open>
  What \<open>getWorkspaceFiles\<close> meets below the project root: a file, a directory with its
  items in the order \<open>readdirSync\<close> lists them, a directory that cannot be listed, and a
  name whose \<open>statSync\<close> throws. A path is joined with \<open>/\<close>.
\<close>

datatype fsnode =
    File
  | Dir "(string \<times> fsnode) list"
  | Unlistable
  | Unstatable

text \<open>
  \<open>searchDir\<close>: \<open>search_items\<close> is the loop over the items of one directory, inside the
  \<open>try\<close>; a throw of \<open>statSync\<close> leaves the loop with the results found so far.
\<close>

fun searchDir :: "string \<Rightarrow> fsnode \<Rightarrow> string \<Rightarrow> string list \<Rightarrow> string list"
  and search_items :: "string \<Rightarrow> (string \<times> fsnode) list \<Rightarrow> string \<Rightarrow> string list \<Rightarrow> string list" where
  "searchDir searchTerm (Dir items) prefix results = search_items searchTerm items prefix results"
| "searchDir searchTerm node prefix results = results"
| "search_items searchTerm [] prefix results = results"
| "search_items searchTerm ((item, node) # rest) prefix results =
     (let relativePath = (if prefix \<noteq> [] then prefix @ ''/'' @ item else item)
      in if startsWith item ''.'' \<or> item = ''node_modules''
         then search_items searchTerm rest prefix results
         else (case node of
                 Unstatable \<Rightarrow> results
               | File \<Rightarrow>
                   if searchTerm = [] \<or> str_includes (toLowerCase item) (toLowerCase searchTerm)
                   then search_items searchTerm rest prefix (results @ [relativePath])
                   else search_items searchTerm rest prefix results
               | _ \<Rightarrow>
                   search_items searchTerm rest prefix
                     (searchDir searchTerm node relativePath results)))"

text \<open>\<open>path.basename\<close> of a relative path.\<close>

definition basename :: "string \<Rightarrow> string" where
  "basename filepath = rev (takeWhile (\<lambda>c. c \<noteq> CHR ''/'') (rev filepath))"

definition getWorkspaceFiles :: "fsnode \<Rightarrow> string \<Rightarrow> provider \<Rightarrow> provider" where
  "getWorkspaceFiles projectRoot searchTerm p =
     (let results = searchDir searchTerm projectRoot [] [];
          limited = map (\<lambda>filepath. JObj [(''name'', JStr (basename filepath)),
                                            (''path'', JStr filepath)])
                      (take 50 results)
      in postMessage (Message ''workspaceFiles'' (JArr limited)) p)"

section \<open>Observations and sample inputs\<close>

text \<open>The title of the record stored under a file name of the conversations directory.\<close>

definition saved_title :: "string \<Rightarrow> provider \<Rightarrow> string option" where
  "saved_title f p =
     (case map_of (conversations p) f of Some (Stored d) \<Rightarrow> Some (title d) | _ \<Rightarrow> None)"

text \<open>
  The entry \<open>_sendAndSaveMessage\<close> appends for a message, and the relation between a
  provider and a later one in which every message posted since has been appended as its
  entry, in the same order, and nothing else has been posted or appended.
\<close>

definition timestamped :: "clock \<Rightarrow> message \<Rightarrow> entry" where
  "timestamped now m =
     [(''timestamp'', JStr (iso now)), (''messageType'', JStr (mtype m)), (''data'', mdata m)]"

definition paired :: "clock \<Rightarrow> provider \<Rightarrow> provider \<Rightarrow> bool" where
  "paired now p p' =
     (\<exists>ms. posted p' = posted p @ ms
         \<and> currentConversation p' = currentConversation p @ map (timestamped now) ms)"

text \<open>The provider a handler leaves, returning or throwing.\<close>

fun outcome :: "'a completion \<Rightarrow> 'a" where
  "outcome (Returns a) = a"
| "outcome (Throws a) = a"

text \<open>
  A name that \<open>searchDir\<close> does not skip, and a relative path all of whose components,
  the pieces between its separators \<open>/\<close>, are such names: no component starts with a dot
  and none is \<open>node_modules\<close>.
\<close>

definition visible_name :: "string \<Rightarrow> bool" where
  "visible_name c = (\<not> startsWith c ''.'' \<and> c \<noteq> ''node_modules'')"

definition visible_components :: "string \<Rightarrow> bool" where
  "visible_components r = (\<forall>c \<in> set (split_on (CHR ''/'') r). visible_name c)"

text \<open>A listed path: its components are visible and its \<open>path.basename\<close> is the last of
  them.\<close>

definition listed :: "string \<Rightarrow> bool" where
  "listed r = (visible_components r \<and> basename r = last (split_on (CHR ''/'') r))"

text \<open>A directory tree as a file system has it: no name that \<open>readdirSync\<close> returns holds
  the path separator.\<close>

fun plain_names :: "fsnode \<Rightarrow> bool"
  and plain_items :: "(string \<times> fsnode) list \<Rightarrow> bool" where
  "plain_names (Dir items) = plain_items items"
| "plain_names node = True"
| "plain_items [] = True"
| "plain_items ((item, node) # rest) =
     (CHR ''/'' \<notin> set item \<and> plain_names node \<and> plain_items rest)"

text \<open>The state the constructor leaves over an empty conversations directory, with no
  permissions file and with the MCP configuration written.\<close>

definition new_provider :: provider where
  "new_provider =
     \<lparr>currentClaudeProcess = None, currentSessionId = None, selectedModel = ''default'',
      isProcessing = False, totalCost = 0, totalTokensInput = 0, totalTokensOutput = 0,
      requestCount = 0, currentConversation = [], conversationStartTime = None,
      permissions = Map.empty, pendingPermissions = Map.empty,
      mcpConfigPath = ''/w/.claude-code-chat/mcp-servers.json'', mcpConfigExists = True,
      rawOutput = [], errorOutput = [], posted = [], spawned = [], killed = [],
      conversations = [], resolved = []\<rparr>"

text \<open>Two readings of the clock.\<close>

definition clock0 :: clock where
  "clock0 = \<lparr>iso = ''2025-01-01T00:00:00.000Z'', ms = 1000\<rparr>"

definition clock1 :: clock where
  "clock1 = \<lparr>iso = ''2025-01-01T00:00:05.000Z'', ms = 6000\<rparr>"

text \<open>The line of stdout that carries one text block, the value it decodes to, and a
  decoder that knows this line only.\<close>

definition hello_line :: string where
  \<open>hello_line = ''{"type":"assistant","message":{"role":"assistant","content":[{"type":"text","text":"Hello"}]}}''\<close>

definition hello_frame :: json where
  "hello_frame =
     JObj [(''type'', JStr ''assistant''),
           (''message'', JObj [(''role'', JStr ''assistant''),
                               (''content'', JArr [JObj [(''type'', JStr ''text''),
                                                         (''text'', JStr ''Hello'')]])])]"

definition hello_parse :: "string \<Rightarrow> json option" where
  "hello_parse s = (if s = hello_line then Some hello_frame else None)"

text \<open>The line by which the CLI announces the session \<open>abc\<close>, likewise.\<close>

definition init_line :: string where
  \<open>init_line = ''{"type":"system","subtype":"init","session_id":"abc"}''\<close>

definition init_frame :: json where
  "init_frame = JObj [(''type'', JStr ''system''), (''subtype'', JStr ''init''),
                      (''session_id'', JStr ''abc'')]"

definition init_parse :: "string \<Rightarrow> json option" where
  "init_parse s = (if s = init_line then Some init_frame else None)"

text \<open>
  A first exchange on a new provider: the user sends \<open>hi\<close>, the CLI announces the session
  \<open>abc\<close> and exits with code 0.
\<close>

definition saved_session :: provider where
  "saved_session =
     on_close clock1 (Some 0)
       (stdout_line init_parse (\<lambda>v. []) clock0 init_line
          (sendMessage clock0 ''hi'' False False new_provider))"

text \<open>A message of 68 characters, and a project directory.\<close>

definition long_text :: string where
  "long_text = ''  Please refactor the parser module so that it streams tokens lazily''"

definition sample_tree :: fsnode where
  "sample_tree =
     Dir [(''.git'', Dir [(''config'', File)]),
          (''README.md'', File),
          (''node_modules'', Dir [(''ws'', Dir [(''index.js'', File)])]),
          (''src'', Dir [(''.cache'', File), (''app.js'', File)])]"

section \<open>Properties\<close>

subsection \<open>What \<open>_sendAndSaveMessage\<close> does\<close>

lemma sendAndSaveMessage_posted:
  "posted (sendAndSaveMessage now m p) = posted p @ [m]"
  by (simp add: sendAndSaveMessage_def postMessage_def Let_def)

lemma sendAndSaveMessage_conversation:
  "currentConversation (sendAndSaveMessage now m p) =
     currentConversation p @ [[(''timestamp'', JStr (iso now)), (''messageType'', JStr (mtype m)),
                               (''data'', mdata m)]]"
  by (simp add: sendAndSaveMessage_def postMessage_def Let_def)

lemma map_of_writeFile: "map_of (writeFile f c fs) f = Some c"
  by (induction fs) auto

subsection \<open>A send while a request is in flight\<close>

text \<open>
  C1. When \<open>isProcessing\<close> is true, \<open>sendMessage\<close> hands the busy error, the message of
  type \<open>error\<close> with the text \<open>Already processing a message. Please wait or stop the current
  request.\<close>, to the client and does nothing else: no subprocess is spawned, no entry is appended, and the session
  identifier, the entries, the totals and the processing flag are as before. The provider
  after the call is the provider before it with one more posted message.
\<close>

theorem sendMessage_busy:
  "isProcessing p \<Longrightarrow>
   sendMessage now msg planMode thinkingMode p
     = p\<lparr>posted := posted p @
          [Message ''error''
             (JStr ''Already processing a message. Please wait or stop the current request.'')]\<rparr>"
  by (simp add: sendMessage_def postMessage_def busy_error_def)

theorem sendMessage_busy_witness:
  "isProcessing (new_provider\<lparr>isProcessing := True\<rparr>)
   \<and> sendMessage clock0 ''hi'' False False (new_provider\<lparr>isProcessing := True\<rparr>)
     = new_provider\<lparr>isProcessing := True,
         posted := [Message ''error''
           (JStr ''Already processing a message. Please wait or stop the current request.'')]\<rparr>
   \<and> spawned (sendMessage clock0 ''hi'' False False (new_provider\<lparr>isProcessing := True\<rparr>)) = []
   \<and> currentConversation
        (sendMessage clock0 ''hi'' False False (new_provider\<lparr>isProcessing := True\<rparr>)) = []"
  using sendMessage_busy [of "new_provider\<lparr>isProcessing := True\<rparr>" clock0 "''hi''" False False]
  by (simp add: new_provider_def)

subsection \<open>The continuation flags of a send\<close>

lemma sendMessage_spawn_args:
  "\<not> isProcessing p \<Longrightarrow>
   spawn_args (sendMessage now msg planMode thinkingMode p) =
     stream_args @ mcp_args p
     @ (if has_id (currentSessionId p)
           \<and> \<not> startsWith (the (currentSessionId p)) ''session_''
           \<and> \<not> startsWith (the (currentSessionId p)) ''conversation_''
        then [''--resume'', the (currentSessionId p)] else [''--continue''])
     @ model_args p @ think_args thinkingMode"
  by (simp add: sendMessage_def postMessage_def sendAndSaveMessage_def continue_args_def
       mcp_args_def model_args_def spawn_args_def Let_def)

lemma fixed_args_flags:
  "''--resume'' \<notin> set stream_args \<and> ''--continue'' \<notin> set stream_args
   \<and> ''--resume'' \<notin> set (think_args t) \<and> ''--continue'' \<notin> set (think_args t)"
  by (simp add: stream_args_def think_args_def)

lemma mcp_args_flags:
  "mcpConfigPath p \<notin> {''--resume'', ''--continue''} \<Longrightarrow>
   ''--resume'' \<notin> set (mcp_args p) \<and> ''--continue'' \<notin> set (mcp_args p)"
  by (auto simp: mcp_args_def)

lemma model_args_flags:
  "selectedModel p \<notin> {''--resume'', ''--continue''} \<Longrightarrow>
   ''--resume'' \<notin> set (model_args p) \<and> ''--continue'' \<notin> set (model_args p)"
  by (auto simp: model_args_def)

text \<open>
  C5, as stated, fails: a session identifier that is the empty string is not \<open>null\<close> and
  starts with neither \<open>session_\<close> nor \<open>conversation_\<close>, yet the argument list of the send
  holds no \<open>--resume\<close>.
\<close>

theorem sendMessage_empty_id_counterexample:
  "\<not> isProcessing (new_provider\<lparr>currentSessionId := Some []\<rparr>)
   \<and> currentSessionId (new_provider\<lparr>currentSessionId := Some []\<rparr>) \<noteq> None
   \<and> \<not> startsWith (the (currentSessionId (new_provider\<lparr>currentSessionId := Some []\<rparr>))) ''session_''
   \<and> \<not> startsWith (the (currentSessionId (new_provider\<lparr>currentSessionId := Some []\<rparr>))) ''conversation_''
   \<and> ''--resume'' \<notin> set (spawn_args
         (sendMessage clock0 ''hi'' False False (new_provider\<lparr>currentSessionId := Some []\<rparr>)))"
  by (simp add: new_provider_def sendMessage_def postMessage_def sendAndSaveMessage_def
       continue_args_def mcp_args_def model_args_def spawn_args_def stream_args_def
       think_args_def has_id_def Let_def)

text \<open>
  C5, amended. For a send that is not rejected, in a provider whose configuration path,
  model name and session identifier are not themselves one of the two flags: the argument
  list holds \<open>--resume\<close> exactly when the session identifier is neither \<open>null\<close> nor empty and
  starts with neither \<open>session_\<close> nor \<open>conversation_\<close>; it then holds \<open>--resume\<close> followed by
  the identifier, and no \<open>--continue\<close>. When it holds no \<open>--resume\<close> and the conversation
  had an entry before the send, it holds \<open>--continue\<close>.
\<close>

theorem sendMessage_continuation:
  assumes "\<not> isProcessing p"
    and "mcpConfigPath p \<notin> {''--resume'', ''--continue''}"
    and "selectedModel p \<notin> {''--resume'', ''--continue''}"
    and "currentSessionId p \<noteq> Some ''--continue''"
  shows "((''--resume'' \<in> set (spawn_args (sendMessage now msg planMode thinkingMode p)))
            = (\<exists>s. currentSessionId p = Some s \<and> s \<noteq> []
                 \<and> \<not> startsWith s ''session_'' \<and> \<not> startsWith s ''conversation_''))
    \<and> (''--resume'' \<in> set (spawn_args (sendMessage now msg planMode thinkingMode p)) \<longrightarrow>
           (\<exists>pre post. spawn_args (sendMessage now msg planMode thinkingMode p)
               = pre @ [''--resume'', the (currentSessionId p)] @ post)
           \<and> ''--continue'' \<notin> set (spawn_args (sendMessage now msg planMode thinkingMode p)))
    \<and> (''--resume'' \<notin> set (spawn_args (sendMessage now msg planMode thinkingMode p))
         \<and> currentConversation p \<noteq> [] \<longrightarrow>
           ''--continue'' \<in> set (spawn_args (sendMessage now msg planMode thinkingMode p)))"
proof -
  let ?args = "spawn_args (sendMessage now msg planMode thinkingMode p)"
  define genuine where "genuine \<longleftrightarrow> has_id (currentSessionId p)
               \<and> \<not> startsWith (the (currentSessionId p)) ''session_''
               \<and> \<not> startsWith (the (currentSessionId p)) ''conversation_''"
  have genuine_iff: "genuine
      = (\<exists>s. currentSessionId p = Some s \<and> s \<noteq> []
           \<and> \<not> startsWith s ''session_'' \<and> \<not> startsWith s ''conversation_'')"
    by (auto simp: genuine_def has_id_def split: option.splits)
  have shape: "?args = (stream_args @ mcp_args p)
                 @ (if genuine then [''--resume'', the (currentSessionId p)] else [''--continue''])
                 @ (model_args p @ think_args thinkingMode)"
    using sendMessage_spawn_args [OF assms(1), of now msg planMode thinkingMode]
    by (simp add: genuine_def)
  have outer: "''--resume'' \<notin> set (stream_args @ mcp_args p)"
    "''--continue'' \<notin> set (stream_args @ mcp_args p)"
    "''--resume'' \<notin> set (model_args p @ think_args thinkingMode)"
    "''--continue'' \<notin> set (model_args p @ think_args thinkingMode)"
    using fixed_args_flags [of thinkingMode] mcp_args_flags [OF assms(2)]
      model_args_flags [OF assms(3)] by simp_all
  have sid: "genuine \<Longrightarrow> the (currentSessionId p) \<noteq> ''--continue''"
    using assms(4) by (auto simp: genuine_def has_id_def split: option.splits)
  show ?thesis
  proof (cases genuine)
    case True
    then have "?args = (stream_args @ mcp_args p) @ [''--resume'', the (currentSessionId p)]
                         @ (model_args p @ think_args thinkingMode)"
      using shape by simp
    moreover from this have "\<exists>pre post. ?args = pre @ [''--resume'', the (currentSessionId p)] @ post"
      by blast
    moreover have "''--continue'' \<notin> set ([''--resume'', the (currentSessionId p)])"
      using sid [OF True] by simp
    ultimately show ?thesis
      using True outer unfolding genuine_iff [symmetric] by auto
  next
    case False
    then have "?args = (stream_args @ mcp_args p) @ [''--continue'']
                         @ (model_args p @ think_args thinkingMode)"
      using shape by simp
    then show ?thesis
      using False outer unfolding genuine_iff [symmetric] by auto
  qed
qed

theorem sendMessage_continuation_witness:
  "\<not> isProcessing (new_provider\<lparr>currentSessionId := Some ''abc''\<rparr>)
   \<and> mcpConfigPath (new_provider\<lparr>currentSessionId := Some ''abc''\<rparr>) \<notin> {''--resume'', ''--continue''}
   \<and> selectedModel (new_provider\<lparr>currentSessionId := Some ''abc''\<rparr>) \<notin> {''--resume'', ''--continue''}
   \<and> currentSessionId (new_provider\<lparr>currentSessionId := Some ''abc''\<rparr>) \<noteq> Some ''--continue''
   \<and> ''--resume'' \<in> set (spawn_args
        (sendMessage clock0 ''hi'' False False (new_provider\<lparr>currentSessionId := Some ''abc''\<rparr>)))
   \<and> ''--continue'' \<notin> set (spawn_args
        (sendMessage clock0 ''hi'' False False (new_provider\<lparr>currentSessionId := Some ''abc''\<rparr>)))
   \<and> currentConversation
         (stopCurrentRequest clock0 (sendMessage clock0 ''hi'' False False new_provider)) \<noteq> []
   \<and> ''--resume'' \<notin> set (spawn_args
        (sendMessage clock1 ''again'' False False
           (stopCurrentRequest clock0 (sendMessage clock0 ''hi'' False False new_provider))))
   \<and> ''--continue'' \<in> set (spawn_args
        (sendMessage clock1 ''again'' False False
           (stopCurrentRequest clock0 (sendMessage clock0 ''hi'' False False new_provider))))"
  using sendMessage_continuation [of "new_provider\<lparr>currentSessionId := Some ''abc''\<rparr>"
           clock0 "''hi''" False False]
    sendMessage_continuation
      [of "stopCurrentRequest clock0 (sendMessage clock0 ''hi'' False False new_provider)"
          clock1 "''again''" False False]
  by (simp add: new_provider_def sendMessage_def sendAndSaveMessage_def postMessage_def
        stopCurrentRequest_def has_id_def Let_def)

subsection \<open>Stopping a request\<close>

text \<open>
  C6. \<open>stopCurrentRequest\<close> without an active subprocess returns the provider unchanged:
  nothing is posted and no state changes. With an active subprocess it sends SIGTERM to
  that process, clears the process handle and the processing flag, and appends exactly
  one entry, the error \<open>Claude code was stopped.\<close>, which is also posted.
\<close>

theorem stopCurrentRequest_effect:
  "(currentClaudeProcess p = None \<longrightarrow> stopCurrentRequest now p = p)
   \<and> (\<forall>h. currentClaudeProcess p = Some h \<longrightarrow>
         killed (stopCurrentRequest now p) = killed p @ [h]
       \<and> isProcessing (stopCurrentRequest now p) = False
       \<and> currentClaudeProcess (stopCurrentRequest now p) = None
       \<and> currentConversation (stopCurrentRequest now p) =
           currentConversation p @ [[(''timestamp'', JStr (iso now)), (''messageType'', JStr ''error''),
                                     (''data'', JStr ''Claude code was stopped.'')]]
       \<and> posted (stopCurrentRequest now p) =
           posted p @ [Message ''error'' (JStr ''Claude code was stopped.'')])"
  by (simp add: stopCurrentRequest_def sendAndSaveMessage_def postMessage_def Let_def)

theorem stopCurrentRequest_effect_witness:
  "currentClaudeProcess new_provider = None
   \<and> stopCurrentRequest clock0 new_provider = new_provider
   \<and> currentClaudeProcess (sendMessage clock0 ''hi'' False False new_provider) = Some 0
   \<and> killed (stopCurrentRequest clock0 (sendMessage clock0 ''hi'' False False new_provider)) = [0]
   \<and> isProcessing (stopCurrentRequest clock0 (sendMessage clock0 ''hi'' False False new_provider)) = False
   \<and> length (currentConversation
        (stopCurrentRequest clock0 (sendMessage clock0 ''hi'' False False new_provider))) = 2"
  using stopCurrentRequest_effect [of new_provider clock0]
    stopCurrentRequest_effect [of "sendMessage clock0 ''hi'' False False new_provider" clock0]
  by (simp add: new_provider_def sendMessage_def sendAndSaveMessage_def postMessage_def
        has_id_def Let_def)

subsection \<open>Posting and appending go together in the stream decoder\<close>

lemma paired_refl: "paired now p p"
  by (simp add: paired_def)

lemma paired_same:
  "posted p' = posted p \<Longrightarrow> currentConversation p' = currentConversation p \<Longrightarrow> paired now p p'"
  by (simp add: paired_def)

lemma paired_trans: "paired now p q \<Longrightarrow> paired now q r \<Longrightarrow> paired now p r"
  by (fastforce simp: paired_def)

lemma paired_send: "paired now p (sendAndSaveMessage now m p)"
proof -
  have "posted (sendAndSaveMessage now m p) = posted p @ [m]
      \<and> currentConversation (sendAndSaveMessage now m p)
          = currentConversation p @ map (timestamped now) [m]"
    by (simp add: sendAndSaveMessage_def postMessage_def timestamped_def Let_def)
  then show ?thesis unfolding paired_def by blast
qed

lemma paired_send_after:
  "paired now p q \<Longrightarrow> paired now p (sendAndSaveMessage now m q)"
  using paired_trans paired_send by blast

lemma paired_processContent: "paired now p (outcome (processContent tostr now content p))"
  by (auto simp: processContent_def paired_refl paired_send split: option.splits json.splits)

lemma paired_processContents: "paired now p (outcome (processContents tostr now contents p))"
proof (induction contents arbitrary: p)
  case Nil
  then show ?case by (simp add: paired_refl)
next
  case (Cons content rest)
  show ?case
  proof (cases "processContent tostr now content p")
    case (Returns q)
    then have "paired now p q" using paired_processContent [of now p tostr content] by simp
    moreover have "paired now q (outcome (processContents tostr now rest q))" using Cons.IH .
    ultimately show ?thesis using Returns paired_trans by simp
  next
    case (Throws q)
    then show ?thesis using paired_processContent [of now p tostr content] by simp
  qed
qed


lemma paired_left:
  "posted p0 = posted p \<Longrightarrow> currentConversation p0 = currentConversation p \<Longrightarrow>
   paired now p0 q \<Longrightarrow> paired now p q"
  by (simp add: paired_def)

lemma paired_right:
  "posted q0 = posted q \<Longrightarrow> currentConversation q0 = currentConversation q \<Longrightarrow>
   paired now p q0 \<Longrightarrow> paired now p q"
  by (simp add: paired_def)

lemma paired_assistant_usage:
  "paired now p
     (let q = p\<lparr>totalTokensInput := a, totalTokensOutput := b, requestCount := c\<rparr>;
          q' = sendAndSaveMessage now (Message ''updateTokens'' (d q)) q
      in q'\<lparr>totalCost := e q'\<rparr>)"
proof -
  let ?q = "p\<lparr>totalTokensInput := a, totalTokensOutput := b, requestCount := c\<rparr>"
  let ?q' = "sendAndSaveMessage now (Message ''updateTokens'' (d ?q)) ?q"
  have "paired now ?q ?q'" by (rule paired_send)
  then have "paired now p ?q'" by (rule paired_left [rotated 2]) simp_all
  then have "paired now p (?q'\<lparr>totalCost := e ?q'\<rparr>)"
    by (rule paired_right [rotated 2]) simp_all
  then show ?thesis by (simp add: Let_def)
qed

lemma paired_processJsonStreamData:
  "paired now p (outcome (processJsonStreamData tostr now jsonData p))"
proof -
  consider (null) "jsonData = JNull"
    | (system) "jsonData \<noteq> JNull" "getprop jsonData ''type'' = Some (JStr ''system'')"
    | (user) "jsonData \<noteq> JNull" "getprop jsonData ''type'' = Some (JStr ''user'')"
    | (assistant) "jsonData \<noteq> JNull" "getprop jsonData ''type'' = Some (JStr ''assistant'')"
    | (final) "jsonData \<noteq> JNull" "getprop jsonData ''type'' = Some (JStr ''final'')"
    | (result) "jsonData \<noteq> JNull" "getprop jsonData ''type'' = Some (JStr ''result'')"
    | (other) "jsonData \<noteq> JNull" "getprop jsonData ''type'' \<noteq> Some (JStr ''system'')"
        "getprop jsonData ''type'' \<noteq> Some (JStr ''user'')"
        "getprop jsonData ''type'' \<noteq> Some (JStr ''assistant'')"
        "getprop jsonData ''type'' \<noteq> Some (JStr ''final'')"
        "getprop jsonData ''type'' \<noteq> Some (JStr ''result'')"
    by blast
  then show ?thesis
  proof cases
    case null
    then show ?thesis by (simp add: processJsonStreamData_def paired_refl)
  next
    case system
    have "paired now p (sendAndSaveMessage now m (p\<lparr>currentSessionId := x\<rparr>))" for m x
      by (rule paired_left [OF _ _ paired_send]) simp_all
    then show ?thesis using system by (simp add: processJsonStreamData_def paired_refl)
  next
    case user
    then show ?thesis by (simp add: processJsonStreamData_def paired_refl paired_send Let_def)
  next
    case assistant
    let ?message = "the (getprop jsonData ''message'')"
    show ?thesis
    proof (cases "truthy (getprop jsonData ''message'')
                  \<and> getprop ?message ''role'' = Some (JStr ''assistant'')")
      case False
      then show ?thesis using assistant by (auto simp: processJsonStreamData_def paired_refl)
    next
      case True
      define p1 where "p1 =
         (if truthy (getprop ?message ''usage'') then
            let usage = the (getprop ?message ''usage'');
                q = p\<lparr>totalTokensInput :=
                        totalTokensInput p + num_or0 (getprop usage ''input_tokens''),
                      totalTokensOutput :=
                        totalTokensOutput p + num_or0 (getprop usage ''output_tokens''),
                      requestCount := requestCount p + 1\<rparr>;
                q' = sendAndSaveMessage now
                       (Message ''updateTokens''
                          (updateTokens_data q usage (getprop usage ''total_cost''))) q
            in q'\<lparr>totalCost := totalCost q' + num_or0 (getprop usage ''total_cost'')\<rparr>
          else p)"
      have one: "paired now p p1"
        unfolding p1_def
        using paired_assistant_usage
          [of now p _ _ _ "\<lambda>q. updateTokens_data q (the (getprop ?message ''usage''))
                                  (getprop (the (getprop ?message ''usage'')) ''total_cost'')"
              "\<lambda>q'. totalCost q' + num_or0 (getprop (the (getprop ?message ''usage'')) ''total_cost'')"]
        by (simp add: paired_refl Let_def)
      have run: "processJsonStreamData tostr now jsonData p =
          (case getprop ?message ''content'' of
             Some (JArr contents) \<Rightarrow> processContents tostr now contents p1
           | _ \<Rightarrow> Throws p1)"
        unfolding processJsonStreamData_def p1_def Let_def using assistant True by simp
      have "paired now p1 (outcome (case getprop ?message ''content'' of
             Some (JArr contents) \<Rightarrow> processContents tostr now contents p1
           | _ \<Rightarrow> Throws p1))"
        by (auto simp: paired_refl paired_processContents split: option.splits json.splits)
      then show ?thesis using one run paired_trans by simp
    qed
  next
    case final
    have "paired now p (sendAndSaveMessage now m (p\<lparr>currentSessionId := x\<rparr>))" for m x
      by (rule paired_left [OF _ _ paired_send]) simp_all
    then show ?thesis using final
      by (simp add: processJsonStreamData_def paired_refl paired_send Let_def)
  next
    case result
    have "paired now p (sendAndSaveMessage now m (p\<lparr>currentSessionId := x\<rparr>))" for m x
      by (rule paired_left [OF _ _ paired_send]) simp_all
    moreover have "paired now p (p\<lparr>currentSessionId := x\<rparr>)" for x
      by (simp add: paired_same)
    ultimately show ?thesis using result
      by (simp add: processJsonStreamData_def paired_refl paired_send Let_def)
  next
    case other
    then show ?thesis by (simp add: processJsonStreamData_def paired_refl)
  qed
qed

lemma paired_stdout_line: "paired now p (stdout_line parse tostr now line p)"
proof (cases "trim line \<noteq> [] \<and> parse (trim line) \<noteq> None")
  case False
  then show ?thesis by (auto simp: stdout_line_def paired_refl paired_send)
next
  case True
  then obtain jsonData where j: "parse (trim line) = Some jsonData" by blast
  show ?thesis
  proof (cases "processJsonStreamData tostr now jsonData p")
    case (Returns q)
    then show ?thesis
      using True j paired_processJsonStreamData [of now p tostr jsonData]
      by (simp add: stdout_line_def)
  next
    case (Throws q)
    then have "paired now p q"
      using paired_processJsonStreamData [of now p tostr jsonData] by simp
    then show ?thesis using True j Throws paired_send_after by (simp add: stdout_line_def)
  qed
qed


lemma paired_fold_lines:
  "paired now p (fold (stdout_line parse tostr now) lines p)"
proof (induction lines arbitrary: p)
  case Nil
  then show ?case by (simp add: paired_refl)
next
  case (Cons line rest)
  have "paired now p (stdout_line parse tostr now line p)" by (rule paired_stdout_line)
  moreover have "paired now (stdout_line parse tostr now line p)
                   (fold (stdout_line parse tostr now) rest (stdout_line parse tostr now line p))"
    by (rule Cons.IH)
  ultimately show ?case using paired_trans by simp
qed

text \<open>
  Whatever arrives on stdout, every message the handler posts it also appends, and the
  other way round.
\<close>

lemma paired_stdout_data: "paired now p (stdout_data parse tostr now chunk p)"
proof -
  let ?lines = "split_on (CHR 0x0A) (rawOutput p @ chunk)"
  have "paired now (p\<lparr>rawOutput := last ?lines\<rparr>)
          (fold (stdout_line parse tostr now) (butlast ?lines) (p\<lparr>rawOutput := last ?lines\<rparr>))"
    by (rule paired_fold_lines)
  then have "paired now p
          (fold (stdout_line parse tostr now) (butlast ?lines) (p\<lparr>rawOutput := last ?lines\<rparr>))"
    by (rule paired_left [rotated 2]) simp_all
  then show ?thesis by (simp add: stdout_data_def Let_def)
qed

subsection \<open>Lines of stdout\<close>

text \<open>A chunk that holds one complete line, arriving on an empty buffer, is handled as
  that line.\<close>

lemma split_on_one_line:
  "d \<notin> set line \<Longrightarrow> split_on d (line @ [d]) = [line, []]"
  by (induction line) auto

lemma stdout_data_one_line:
  assumes "CHR 0x0A \<notin> set line" and "rawOutput p = []"
  shows "stdout_data parse tostr now (line @ [CHR 0x0A]) p = stdout_line parse tostr now line p"
proof -
  have idem: "p\<lparr>rawOutput := []\<rparr> = p" using assms(2) by (cases p) simp
  have "stdout_data parse tostr now (line @ [CHR 0x0A]) p
          = stdout_line parse tostr now line (p\<lparr>rawOutput := []\<rparr>)"
    using assms by (simp add: stdout_data_def split_on_one_line Let_def)
  then show ?thesis by (simp only: idem)
qed

text \<open>
  C3, as stated, fails: a line that holds one space is not empty and does not decode, yet
  nothing is posted and nothing is appended for it.
\<close>

theorem stdout_line_blank_counterexample:
  "'' '' \<noteq> []
   \<and> (\<lambda>s. None :: json option) (trim '' '') = None
   \<and> posted (stdout_line (\<lambda>s. None) (\<lambda>v. []) clock0 '' '' new_provider) = []
   \<and> currentConversation (stdout_line (\<lambda>s. None) (\<lambda>v. []) clock0 '' '' new_provider) = []"
  by (simp add: stdout_line_def trim_def is_ws_def new_provider_def)

text \<open>
  C3, amended. For a line of stdout whose trimmed text is not empty and does not decode
  as JSON, the decoder posts exactly one message, of type \<open>output\<close> with the trimmed text
  as data, and appends exactly one entry, for that message; it posts no error and the
  decode failure is not raised. A line that is empty after trimming is passed over.
\<close>

theorem stdout_line_not_json:
  "(trim line \<noteq> [] \<and> parse (trim line) = None \<longrightarrow>
      posted (stdout_line parse tostr now line p)
        = posted p @ [Message ''output'' (JStr (trim line))]
    \<and> currentConversation (stdout_line parse tostr now line p)
        = currentConversation p @ [[(''timestamp'', JStr (iso now)),
             (''messageType'', JStr ''output''), (''data'', JStr (trim line))]])
   \<and> (trim line = [] \<longrightarrow> stdout_line parse tostr now line p = p)"
  by (simp add: stdout_line_def sendAndSaveMessage_posted sendAndSaveMessage_conversation)

theorem stdout_line_not_json_witness:
  "trim ''plain text'' \<noteq> [] \<and> hello_parse (trim ''plain text'') = None
   \<and> posted (stdout_line hello_parse (\<lambda>v. []) clock0 ''plain text'' new_provider)
        = [Message ''output'' (JStr ''plain text'')]
   \<and> length (currentConversation
        (stdout_line hello_parse (\<lambda>v. []) clock0 ''plain text'' new_provider)) = 1
   \<and> trim '' '' = []
   \<and> stdout_line hello_parse (\<lambda>v. []) clock0 '' '' new_provider = new_provider"
  using stdout_line_not_json [of "''plain text''" hello_parse "\<lambda>v. []" clock0 new_provider]
    stdout_line_not_json [of "'' ''" hello_parse "\<lambda>v. []" clock0 new_provider]
  by (simp add: trim_def is_ws_def new_provider_def hello_parse_def hello_line_def)

lemma trim_hello_line: "trim hello_line = hello_line"
  by (simp add: trim_def is_ws_def hello_line_def)

lemma hello_line_nonempty: "hello_line \<noteq> []"
  by (simp add: hello_line_def)

lemma processJsonStreamData_hello:
  "processJsonStreamData tostr now hello_frame p
     = Returns (sendAndSaveMessage now (Message ''output'' (JStr ''Hello'')) p)"
  by (simp add: processJsonStreamData_def hello_frame_def processContent_def trim_def is_ws_def)

text \<open>
  C4. Whatever decoder maps the line to the value it denotes, the line
  \<open>{"type":"assistant","message":{"role":"assistant","content":[{"type":"text","text":"Hello"}]}}\<close>
  makes the decoder post exactly one message, \<open>output\<close> with data \<open>Hello\<close>, and append
  exactly one entry, for that message: the step is one call of \<open>_sendAndSaveMessage\<close>,
  and every call of \<open>_sendAndSaveMessage\<close> both hands its message to \<open>_postMessage\<close> and
  appends the entry of that message.
\<close>

theorem stdout_line_hello:
  "parse hello_line = Some hello_frame \<Longrightarrow>
     posted (stdout_line parse tostr now hello_line p)
       = posted p @ [Message ''output'' (JStr ''Hello'')]
   \<and> currentConversation (stdout_line parse tostr now hello_line p)
       = currentConversation p @ [[(''timestamp'', JStr (iso now)),
            (''messageType'', JStr ''output''), (''data'', JStr ''Hello'')]]
   \<and> stdout_line parse tostr now hello_line p
       = sendAndSaveMessage now (Message ''output'' (JStr ''Hello'')) p
   \<and> (\<forall>m q. posted (sendAndSaveMessage now m q) = posted q @ [m]
          \<and> currentConversation (sendAndSaveMessage now m q)
              = currentConversation q @ [[(''timestamp'', JStr (iso now)),
                   (''messageType'', JStr (mtype m)), (''data'', mdata m)]])"
proof -
  assume "parse hello_line = Some hello_frame"
  then have "stdout_line parse tostr now hello_line p
       = sendAndSaveMessage now (Message ''output'' (JStr ''Hello'')) p"
    using trim_hello_line hello_line_nonempty processJsonStreamData_hello [of tostr now p]
    by (simp add: stdout_line_def)
  then show ?thesis
    by (simp add: sendAndSaveMessage_posted sendAndSaveMessage_conversation)
qed

theorem stdout_line_hello_witness:
  "hello_parse hello_line = Some hello_frame
   \<and> posted (stdout_line hello_parse (\<lambda>v. []) clock0 hello_line new_provider)
       = [Message ''output'' (JStr ''Hello'')]
   \<and> currentConversation (stdout_line hello_parse (\<lambda>v. []) clock0 hello_line new_provider)
       = [[(''timestamp'', JStr (iso clock0)),
            (''messageType'', JStr ''output''), (''data'', JStr ''Hello'')]]"
  using stdout_line_hello [of hello_parse "\<lambda>v. []" clock0 new_provider]
  by (simp add: new_provider_def hello_parse_def)

subsection \<open>Saving after the subprocess has exited\<close>

text \<open>
  C2 at a failing input. A new provider sends \<open>hi\<close>; the CLI exits with code 1 before it
  has announced a session. The session then holds two entries, the user input and the
  error, and no session identifier; the \<open>close\<close> handler leaves the conversations
  directory empty: nothing is written under a fallback name.
\<close>

theorem on_close_without_id:
  "currentSessionId (on_close clock1 (Some 1) (sendMessage clock0 ''hi'' False False new_provider))
     = None
   \<and> length (currentConversation
        (on_close clock1 (Some 1) (sendMessage clock0 ''hi'' False False new_provider))) = 2
   \<and> conversations (on_close clock1 (Some 1) (sendMessage clock0 ''hi'' False False new_provider))
     = []"
  by (simp add: new_provider_def sendMessage_def sendAndSaveMessage_def postMessage_def
       on_close_def saveCurrentConversation_def has_id_def Let_def trim_def)

text \<open>With a session identifier the same handler writes the whole session under it.\<close>

lemma on_close_persists:
  assumes "currentSessionId p = Some sid" and "sid \<noteq> []"
    and "currentConversation p \<noteq> [] \<or> code \<noteq> Some 0"
  shows "map_of (conversations (on_close now code p)) (sid @ ''.json'')
     = Some (Stored
         \<lparr>sessionId = Some sid,
          title = conversation_title (currentConversation (on_close now code p)),
          startTime = conversationStartTime (on_close now code p),
          endTime = iso now,
          messageCount = length (currentConversation (on_close now code p)),
          totalCostD = totalCost p,
          totalTokens = (totalTokensInput p, totalTokensOutput p),
          messages = currentConversation (on_close now code p)\<rparr>)"
  using assms
  by (auto simp: on_close_def saveCurrentConversation_def postMessage_def sendAndSaveMessage_def
        has_id_def map_of_writeFile Let_def)

text \<open>The first exchange \<open>saved_session\<close>, step by step.\<close>

lemma init_line_trim: "trim init_line = init_line"
  by (simp add: trim_def is_ws_def init_line_def)

lemma init_line_nonempty: "init_line \<noteq> []"
  by (simp add: init_line_def)

lemma processJsonStreamData_init:
  "processJsonStreamData tostr now init_frame p
     = Returns (sendAndSaveMessage now
         (Message ''sessionInfo'' (JObj [(''sessionId'', JStr ''abc''), (''tools'', JArr []),
                                         (''mcpServers'', JArr [])]))
         (p\<lparr>currentSessionId := Some ''abc''\<rparr>))"
  by (simp add: init_frame_def processJsonStreamData_def js_or_def)

lemma stdout_line_init:
  "stdout_line init_parse tostr now init_line p
     = sendAndSaveMessage now
         (Message ''sessionInfo'' (JObj [(''sessionId'', JStr ''abc''), (''tools'', JArr []),
                                         (''mcpServers'', JArr [])]))
         (p\<lparr>currentSessionId := Some ''abc''\<rparr>)"
  by (simp add: stdout_line_def init_line_trim init_line_nonempty init_parse_def
        processJsonStreamData_init)

lemma saved_session_conversations:
  "conversations saved_session =
     [(''abc.json'',
       Stored \<lparr>sessionId = Some ''abc'', title = ''hi'',
         startTime = Some ''2025-01-01T00:00:00.000Z'', endTime = ''2025-01-01T00:00:05.000Z'',
         messageCount = 2, totalCostD = 0, totalTokens = (0, 0),
         messages =
           [[(''timestamp'', JStr ''2025-01-01T00:00:00.000Z''),
             (''messageType'', JStr ''userInput''), (''data'', JStr ''hi'')],
            [(''timestamp'', JStr ''2025-01-01T00:00:00.000Z''),
             (''messageType'', JStr ''sessionInfo''),
             (''data'', JObj [(''sessionId'', JStr ''abc''), (''tools'', JArr []),
                              (''mcpServers'', JArr [])])]]\<rparr>)]"
  by (simp add: saved_session_def stdout_line_init new_provider_def sendMessage_def
        sendAndSaveMessage_def postMessage_def on_close_def saveCurrentConversation_def
        has_id_def Let_def conversation_title_def trim_def is_ws_def clock0_def clock1_def)

subsection \<open>The title of a saved conversation\<close>

lemma find_first_match:
  "\<forall>e \<in> set pre. \<not> P e \<Longrightarrow> P m \<Longrightarrow> find P (pre @ m # post) = Some m"
  by (induction pre) auto

lemma conversation_title_first:
  assumes "conv = pre @ m # post"
    and "\<forall>e \<in> set pre. map_of e ''messageType'' \<noteq> Some (JStr ''userInput'')"
    and "map_of m ''messageType'' = Some (JStr ''userInput'')"
    and "map_of m ''data'' = Some (JStr t)"
    and "t \<noteq> []"
  shows "conversation_title conv = trim (take 50 t) @ (if length t > 50 then ''...'' else [])"
proof -
  have "find (\<lambda>msg. map_of msg ''messageType'' = Some (JStr ''userInput'')) conv = Some m"
    using assms(1,2,3)
      find_first_match [of pre "\<lambda>msg. map_of msg ''messageType'' = Some (JStr ''userInput'')" m post]
    by simp
  then show ?thesis using assms(4,5) by (simp add: conversation_title_def)
qed

lemma saved_title_save:
  "currentSessionId p = Some sid \<Longrightarrow> sid \<noteq> [] \<Longrightarrow> currentConversation p \<noteq> [] \<Longrightarrow>
   saved_title (sid @ ''.json'') (saveCurrentConversation now p)
     = Some (conversation_title (currentConversation p))"
  by (simp add: saveCurrentConversation_def saved_title_def has_id_def map_of_writeFile Let_def)

lemma save_keeps_session:
  "currentSessionId (saveCurrentConversation now p) = currentSessionId p
   \<and> currentConversation (saveCurrentConversation now p) = currentConversation p"
  by (simp add: saveCurrentConversation_def Let_def)

text \<open>
  C8, as stated, fails: in a session whose first user input has the empty text, the
  saved title is \<open>Untitled Conversation\<close>, not the (empty) first 50 characters of the text.
\<close>

theorem saved_title_empty_input_counterexample:
  "currentConversation
     (sendMessage clock0 [] False False (new_provider\<lparr>currentSessionId := Some ''abc''\<rparr>))
     = [[(''timestamp'', JStr (iso clock0)), (''messageType'', JStr ''userInput''),
         (''data'', JStr [])]]
   \<and> saved_title ''abc.json''
        (saveCurrentConversation clock1
           (sendMessage clock0 [] False False (new_provider\<lparr>currentSessionId := Some ''abc''\<rparr>)))
       = Some ''Untitled Conversation''
   \<and> ''Untitled Conversation''
       \<noteq> trim (take 50 []) @ (if length ([] :: string) > 50 then ''...'' else [])"
  by (simp add: new_provider_def sendMessage_def sendAndSaveMessage_def postMessage_def
        saveCurrentConversation_def saved_title_def has_id_def conversation_title_def Let_def
        trim_def)

text \<open>
  C8, amended. In a session with a session identifier whose first user-input entry has a
  text \<open>t\<close> that is not empty, the title of the saved record is the first 50 characters of
  \<open>t\<close>, trimmed, followed by \<open>...\<close> exactly when \<open>t\<close> is longer than 50 characters; and a
  second save, with no entry appended in between, stores the same title.
\<close>

theorem saved_title_of_first_input:
  assumes "currentSessionId p = Some sid" and "sid \<noteq> []"
    and "currentConversation p = pre @ m # post"
    and "\<forall>e \<in> set pre. map_of e ''messageType'' \<noteq> Some (JStr ''userInput'')"
    and "map_of m ''messageType'' = Some (JStr ''userInput'')"
    and "map_of m ''data'' = Some (JStr t)"
    and "t \<noteq> []"
  shows "saved_title (sid @ ''.json'') (saveCurrentConversation now p)
           = Some (trim (take 50 t) @ (if length t > 50 then ''...'' else []))
       \<and> saved_title (sid @ ''.json'')
            (saveCurrentConversation now' (saveCurrentConversation now p))
           = saved_title (sid @ ''.json'') (saveCurrentConversation now p)"
proof -
  let ?q = "saveCurrentConversation now p"
  have ne: "currentConversation p \<noteq> []" using assms(3) by simp
  have t: "conversation_title (currentConversation p)
             = trim (take 50 t) @ (if length t > 50 then ''...'' else [])"
    using conversation_title_first [OF assms(3,4,5,6,7)] .
  have first: "saved_title (sid @ ''.json'') ?q = Some (conversation_title (currentConversation p))"
    using saved_title_save [OF assms(1,2) ne] .
  have "currentSessionId ?q = Some sid" "currentConversation ?q \<noteq> []"
    using save_keeps_session [of now p] assms(1) ne by simp_all
  then have "saved_title (sid @ ''.json'') (saveCurrentConversation now' ?q)
               = Some (conversation_title (currentConversation ?q))"
    using saved_title_save [of ?q sid now'] assms(2) by simp
  then have second: "saved_title (sid @ ''.json'') (saveCurrentConversation now' ?q)
               = Some (conversation_title (currentConversation p))"
    using save_keeps_session [of now p] by simp
  show ?thesis using first second t by simp
qed

theorem saved_title_of_first_input_witness:
  "currentSessionId
     (sendMessage clock1 long_text False False
        (stdout_line init_parse (\<lambda>v. []) clock0 init_line new_provider))
     = Some ''abc''
   \<and> currentConversation
     (sendMessage clock1 long_text False False
        (stdout_line init_parse (\<lambda>v. []) clock0 init_line new_provider))
     = [[(''timestamp'', JStr (iso clock0)), (''messageType'', JStr ''sessionInfo''),
         (''data'', JObj [(''sessionId'', JStr ''abc''), (''tools'', JArr []),
                          (''mcpServers'', JArr [])])]]
       @ [(''timestamp'', JStr (iso clock1)), (''messageType'', JStr ''userInput''),
          (''data'', JStr long_text)] # []
   \<and> long_text \<noteq> [] \<and> length long_text > 50
   \<and> saved_title ''abc.json''
     (saveCurrentConversation clock1
        (sendMessage clock1 long_text False False
           (stdout_line init_parse (\<lambda>v. []) clock0 init_line new_provider)))
     = Some ''Please refactor the parser module so that it str...''
   \<and> saved_title ''abc.json''
     (saveCurrentConversation clock1 (saveCurrentConversation clock1
        (sendMessage clock1 long_text False False
           (stdout_line init_parse (\<lambda>v. []) clock0 init_line new_provider))))
     = Some ''Please refactor the parser module so that it str...''"
  using saved_title_of_first_input
    [of "sendMessage clock1 long_text False False
           (stdout_line init_parse (\<lambda>v. []) clock0 init_line new_provider)"
        "''abc''"
        "[[(''timestamp'', JStr (iso clock0)), (''messageType'', JStr ''sessionInfo''),
           (''data'', JObj [(''sessionId'', JStr ''abc''), (''tools'', JArr []),
                            (''mcpServers'', JArr [])])]]"
        "[(''timestamp'', JStr (iso clock1)), (''messageType'', JStr ''userInput''),
          (''data'', JStr long_text)]" "[]" long_text clock1 clock1]
  by (simp add: stdout_line_init new_provider_def sendMessage_def sendAndSaveMessage_def
        postMessage_def has_id_def Let_def long_text_def trim_def is_ws_def)

subsection \<open>Loading a conversation\<close>

text \<open>An identifier that no file matches, by name or by content, loads nothing.\<close>

lemma loadConversation_no_match:
  assumes "\<forall>(f, c) \<in> set (conversations p).
      \<not> str_includes f sid \<and> (\<forall>d. c = Stored d \<longrightarrow> sessionId d \<noteq> Some sid)"
  shows "loadConversation sid p = (None, p)"
proof -
  have "find (\<lambda>(f, c). str_includes f sid
                    \<or> (case c of Corrupt \<Rightarrow> False | Stored d \<Rightarrow> sessionId d = Some sid))
             (conversations p) = None"
    using assms by (auto simp: find_None_iff split: stored.splits)
  then show ?thesis by (simp add: loadConversation_def)
qed

text \<open>
  C9 at a failing input. The record that the first exchange \<open>saved_session\<close> has stored
  under \<open>abc.json\<close> holds one user-input entry. \<open>loadConversation\<close> finds the record and
  makes its entries the current conversation, with that one user-input entry, yet sets
  the request count to 0: it counts the entries whose \<open>type\<close> is \<open>userInput\<close>, and entries
  carry their kind under \<open>messageType\<close>.
\<close>

theorem loadConversation_requestCount:
  "fst (loadConversation ''abc'' saved_session) \<noteq> None
   \<and> length (filter (\<lambda>m. map_of m ''messageType'' = Some (JStr ''userInput''))
             (currentConversation (snd (loadConversation ''abc'' saved_session)))) = 1
   \<and> requestCount (snd (loadConversation ''abc'' saved_session)) = 0"
  by (simp add: loadConversation_def saved_session_conversations)

subsection \<open>Always allow\<close>

lemma show_nat_1000: "show_nat 1000 = ''1000''"
  by (simp add: show_nat.simps digit_char_def)

lemma show_nat_6000: "show_nat 6000 = ''6000''"
  by (simp add: show_nat.simps digit_char_def)

text \<open>
  C7 at a failing input. On a new provider \<open>handlePermissionRequest\<close> for the tool \<open>Bash\<close>
  and the command \<open>ls\<close> waits under the id \<open>perm_1000\<close>. The response
  \<open>(perm_1000, true, true)\<close> invokes the resolver with \<open>true\<close>, but stores no rule for
  \<open>Bash:ls\<close>: nothing was ever stored under \<open>perm_1000_data\<close>. A later request for the
  same tool and command therefore waits again, under \<open>perm_6000\<close>, and a second
  \<open>permissionRequest\<close> is posted.
\<close>

theorem always_allow_not_kept:
  "fst (handlePermissionRequest clock0 ''Bash'' ''ls'' new_provider) = Awaiting ''perm_1000''
   \<and> resolved (handlePermissionResponse ''perm_1000'' True True
                 (snd (handlePermissionRequest clock0 ''Bash'' ''ls'' new_provider)))
        = [(PromiseResolve ''perm_1000'', True)]
   \<and> permissions (handlePermissionResponse ''perm_1000'' True True
                 (snd (handlePermissionRequest clock0 ''Bash'' ''ls'' new_provider))) ''Bash:ls''
        = None
   \<and> fst (handlePermissionRequest clock1 ''Bash'' ''ls''
            (handlePermissionResponse ''perm_1000'' True True
               (snd (handlePermissionRequest clock0 ''Bash'' ''ls'' new_provider))))
        = Awaiting ''perm_6000''
   \<and> posted (snd (handlePermissionRequest clock1 ''Bash'' ''ls''
            (handlePermissionResponse ''perm_1000'' True True
               (snd (handlePermissionRequest clock0 ''Bash'' ''ls'' new_provider)))))
        = [Message ''permissionRequest'' (JObj [(''id'', JStr ''perm_1000''),
              (''tool'', JStr ''Bash''), (''command'', JStr ''ls'')]),
           Message ''permissionRequest'' (JObj [(''id'', JStr ''perm_6000''),
              (''tool'', JStr ''Bash''), (''command'', JStr ''ls'')])]"
  by (simp add: handlePermissionRequest_def handlePermissionResponse_def new_provider_def
       postMessage_def clock0_def clock1_def show_nat_1000 show_nat_6000 Let_def)

subsection \<open>Workspace files\<close>

lemma split_on_nonempty: "split_on d s \<noteq> []"
  by (induction s) (auto split: list.splits)

lemma split_on_plain: "d \<notin> set s \<Longrightarrow> split_on d s = [s]"
  by (induction s) auto

lemma split_on_append: "split_on d (a @ d # b) = split_on d a @ split_on d b"
proof (induction a)
  case Nil
  then show ?case by simp
next
  case (Cons c a)
  obtain x xs where x: "split_on d a = x # xs"
    using split_on_nonempty [of d a] by (cases "split_on d a") auto
  show ?case using Cons x by simp
qed


lemma basename_plain: "CHR ''/'' \<notin> set item \<Longrightarrow> basename item = item"
proof -
  assume "CHR ''/'' \<notin> set item"
  then have "\<forall>c \<in> set (rev item). c \<noteq> CHR ''/''" by auto
  then have tw: "takeWhile (\<lambda>c. c \<noteq> CHR ''/'') (rev item) = rev item"
    by (simp only: takeWhile_eq_all_conv)
  show ?thesis by (simp only: basename_def tw rev_rev_ident)
qed

lemma basename_joined:
  "CHR ''/'' \<notin> set item \<Longrightarrow> basename (prefix @ ''/'' @ item) = item"
proof -
  assume "CHR ''/'' \<notin> set item"
  then have all: "\<forall>c \<in> set (rev item). c \<noteq> CHR ''/''" by auto
  have tw: "takeWhile (\<lambda>c. c \<noteq> CHR ''/'') (rev item @ CHR ''/'' # rev prefix) = rev item"
    using all by (simp add: takeWhile_append)
  have "rev (prefix @ ''/'' @ item) = rev item @ CHR ''/'' # rev prefix" by simp
  then show ?thesis by (simp only: basename_def tw rev_rev_ident)
qed

lemma listed_item:
  assumes "prefix = [] \<or> visible_components prefix"
    and "CHR ''/'' \<notin> set item" and "visible_name item"
  shows "listed (if prefix \<noteq> [] then prefix @ ''/'' @ item else item)"
proof (cases "prefix = []")
  case True
  then show ?thesis
    using assms(2,3) by (simp add: listed_def visible_components_def split_on_plain basename_plain)
next
  case False
  then have vp: "visible_components prefix" using assms(1) by simp
  have sp: "split_on (CHR ''/'') (prefix @ ''/'' @ item) = split_on (CHR ''/'') prefix @ [item]"
    using split_on_append [of "CHR ''/''" prefix item] assms(2) by (simp add: split_on_plain)
  have "visible_components (prefix @ ''/'' @ item)"
    using vp assms(3) sp by (simp add: visible_components_def)
  moreover have "basename (prefix @ ''/'' @ item) = last (split_on (CHR ''/'') (prefix @ ''/'' @ item))"
    using sp basename_joined [OF assms(2)] by simp
  ultimately show ?thesis using False by (simp add: listed_def)
qed

lemma search_items_hidden:
  "startsWith item ''.'' \<or> item = ''node_modules'' \<Longrightarrow>
   search_items t ((item, node) # rest) prefix results = search_items t rest prefix results"
  by (simp add: Let_def)

lemma search_items_file:
  "\<not> (startsWith item ''.'' \<or> item = ''node_modules'') \<Longrightarrow>
   search_items t ((item, File) # rest) prefix results =
     (if t = [] \<or> str_includes (toLowerCase item) (toLowerCase t)
      then search_items t rest prefix
             (results @ [if prefix \<noteq> [] then prefix @ ''/'' @ item else item])
      else search_items t rest prefix results)"
  by (simp add: Let_def)

lemma search_items_unstatable:
  "\<not> (startsWith item ''.'' \<or> item = ''node_modules'') \<Longrightarrow>
   search_items t ((item, Unstatable) # rest) prefix results = results"
  by (simp add: Let_def)

lemma search_items_dir:
  "\<not> (startsWith item ''.'' \<or> item = ''node_modules'') \<Longrightarrow>
   node = Dir sub \<or> node = Unlistable \<Longrightarrow>
   search_items t ((item, node) # rest) prefix results =
     search_items t rest prefix
       (searchDir t node (if prefix \<noteq> [] then prefix @ ''/'' @ item else item) results)"
  by (auto simp: Let_def)

text \<open>The search only ever adds listed paths, below a prefix of visible components.\<close>

lemma search_listed:
  "plain_names node \<Longrightarrow> prefix = [] \<or> visible_components prefix \<Longrightarrow>
     \<forall>r \<in> set results. listed r \<Longrightarrow>
     \<forall>r \<in> set (searchDir searchTerm node prefix results). listed r"
  "plain_items items \<Longrightarrow> prefix = [] \<or> visible_components prefix \<Longrightarrow>
     \<forall>r \<in> set results. listed r \<Longrightarrow>
     \<forall>r \<in> set (search_items searchTerm items prefix results). listed r"
proof (induction searchTerm node prefix results and searchTerm items prefix results
         rule: searchDir_search_items.induct)
  case (4 searchTerm item node rest prefix results)
  let ?rel = "if prefix \<noteq> [] then prefix @ ''/'' @ item else item"
  note pre = "4.prems"(2) and res = "4.prems"(3)
  have plain: "CHR ''/'' \<notin> set item" "plain_names node" "plain_items rest"
    using "4.prems"(1) by simp_all
  show ?case
  proof (cases "startsWith item ''.'' \<or> item = ''node_modules''")
    case True
    have "\<forall>r \<in> set (search_items searchTerm rest prefix results). listed r"
      using "4.IH"(1) [OF refl True plain(3) pre res] .
    then show ?thesis using search_items_hidden [OF True] by simp
  next
    case False
    then have "visible_name item" by (simp add: visible_name_def)
    then have vis: "listed ?rel" using listed_item [OF pre plain(1)] by blast
    then have visp: "?rel = [] \<or> visible_components ?rel" by (simp add: listed_def)
    show ?thesis
    proof (cases node)
      case File
      show ?thesis
      proof (cases "searchTerm = [] \<or> str_includes (toLowerCase item) (toLowerCase searchTerm)")
        case True
        have "\<forall>r \<in> set (results @ [?rel]). listed r" using res vis by auto
        then have "\<forall>r \<in> set (search_items searchTerm rest prefix (results @ [?rel])). listed r"
          using "4.IH"(2) [OF refl False File True plain(3) pre] by blast
        then show ?thesis using search_items_file [OF False] File True by simp
      next
        case nomatch: False
        have "\<forall>r \<in> set (search_items searchTerm rest prefix results). listed r"
          using "4.IH"(3) [OF refl False File nomatch plain(3) pre res] .
        then show ?thesis using search_items_file [OF False] File nomatch by simp
      qed
    next
      case (Dir sub)
      have "\<forall>r \<in> set (searchDir searchTerm node ?rel results). listed r"
        using "4.IH"(4) [OF refl False Dir plain(2) visp res] .
      then have "\<forall>r \<in> set (search_items searchTerm rest prefix
                     (searchDir searchTerm node ?rel results)). listed r"
        using "4.IH"(5) [OF refl False Dir plain(3) pre] by blast
      then show ?thesis using search_items_dir [OF False, of node sub] Dir by simp
    next
      case Unlistable
      have "\<forall>r \<in> set (searchDir searchTerm node ?rel results). listed r"
        using "4.IH"(6) [OF refl False Unlistable plain(2) visp res] .
      then have "\<forall>r \<in> set (search_items searchTerm rest prefix
                     (searchDir searchTerm node ?rel results)). listed r"
        using "4.IH"(7) [OF refl False Unlistable plain(3) pre] by blast
      then show ?thesis using search_items_dir [OF False, of node] Unlistable by simp
    next
      case Unstatable
      then show ?thesis using search_items_unstatable [OF False] res by simp
    qed
  qed
qed simp_all


text \<open>A path below a hidden directory or below \<open>node_modules\<close> does not qualify.\<close>

lemma visible_components_examples:
  "visible_components ''src/app.js''
   \<and> \<not> visible_components ''src/.cache''
   \<and> \<not> visible_components ''node_modules/ws/index.js''
   \<and> \<not> visible_components ''.git/config''"
  by (simp add: visible_components_def visible_name_def)

text \<open>
  C10. For every project directory and every search term, \<open>getWorkspaceFiles\<close> posts
  exactly one message, of type \<open>workspaceFiles\<close>, and changes nothing else; its list has at
  most 50 entries. In a directory tree whose names hold no path separator, each entry
  gives the name and the path of a relative path no component of which, at any depth,
  starts with a dot or is \<open>node_modules\<close>, and the name itself is such a component.
\<close>

theorem getWorkspaceFiles_listing:
  "\<exists>limited.
      getWorkspaceFiles projectRoot searchTerm p
        = p\<lparr>posted := posted p @ [Message ''workspaceFiles'' (JArr limited)]\<rparr>
    \<and> length limited \<le> 50
    \<and> (plain_names projectRoot \<longrightarrow>
         (\<forall>e \<in> set limited.
            \<exists>r. e = JObj [(''name'', JStr (basename r)), (''path'', JStr r)]
              \<and> visible_components r \<and> visible_name (basename r)))"
proof -
  let ?results = "searchDir searchTerm projectRoot [] []"
  let ?limited = "map (\<lambda>filepath. JObj [(''name'', JStr (basename filepath)), (''path'', JStr filepath)])
                      (take 50 ?results)"
  have name: "visible_name (basename r)" if "listed r" for r
  proof -
    have "last (split_on (CHR ''/'') r) \<in> set (split_on (CHR ''/'') r)"
      using split_on_nonempty [of "CHR ''/''" r] by simp
    then show ?thesis using that by (simp add: listed_def visible_components_def)
  qed
  have members: "\<forall>e \<in> set ?limited.
      \<exists>r. e = JObj [(''name'', JStr (basename r)), (''path'', JStr r)]
        \<and> visible_components r \<and> visible_name (basename r)"
    if plain: "plain_names projectRoot"
  proof -
    have "\<forall>r \<in> set ?results. listed r"
      using search_listed(1) [OF plain, of "[]" "[]" searchTerm] by simp
    then have "\<forall>r \<in> set (take 50 ?results). listed r"
      by (meson in_set_takeD)
    then have "\<forall>r \<in> set (take 50 ?results). visible_components r \<and> visible_name (basename r)"
      using name by (simp add: listed_def)
    then show ?thesis by auto
  qed
  have post: "getWorkspaceFiles projectRoot searchTerm p
        = p\<lparr>posted := posted p @ [Message ''workspaceFiles'' (JArr ?limited)]\<rparr>"
    by (simp add: getWorkspaceFiles_def postMessage_def Let_def)
  have len: "length ?limited \<le> 50" by simp
  show ?thesis using post len members by blast
qed

lemma sample_tree_listing:
  "getWorkspaceFiles sample_tree [] new_provider
     = new_provider\<lparr>posted :=
         [Message ''workspaceFiles''
            (JArr [JObj [(''name'', JStr ''README.md''), (''path'', JStr ''README.md'')],
                   JObj [(''name'', JStr ''app.js''), (''path'', JStr ''src/app.js'')]])]\<rparr>"
  by (simp add: getWorkspaceFiles_def postMessage_def sample_tree_def new_provider_def
        basename_def Let_def)

theorem getWorkspaceFiles_listing_witness:
  "plain_names sample_tree
   \<and> posted (getWorkspaceFiles sample_tree [] new_provider)
     = [Message ''workspaceFiles''
            (JArr [JObj [(''name'', JStr ''README.md''), (''path'', JStr ''README.md'')],
                   JObj [(''name'', JStr ''app.js''), (''path'', JStr ''src/app.js'')]])]
   \<and> visible_components ''src/app.js'' \<and> visible_name ''app.js''"
proof -
  have plain: "plain_names sample_tree" by (simp add: sample_tree_def)
  obtain limited where l:
      "getWorkspaceFiles sample_tree [] new_provider
        = new_provider\<lparr>posted := posted new_provider @ [Message ''workspaceFiles'' (JArr limited)]\<rparr>"
      "\<forall>e \<in> set limited.
          \<exists>r. e = JObj [(''name'', JStr (basename r)), (''path'', JStr r)]
            \<and> visible_components r \<and> visible_name (basename r)"
    using getWorkspaceFiles_listing [of sample_tree "[]" new_provider] plain by blast
  have "posted (getWorkspaceFiles sample_tree [] new_provider)
          = posted new_provider @ [Message ''workspaceFiles'' (JArr limited)]"
    using l(1) by simp
  then have lim: "limited = [JObj [(''name'', JStr ''README.md''), (''path'', JStr ''README.md'')],
                   JObj [(''name'', JStr ''app.js''), (''path'', JStr ''src/app.js'')]]"
    using sample_tree_listing by (simp add: new_provider_def)
  then have mem: "JObj [(''name'', JStr ''app.js''), (''path'', JStr ''src/app.js'')] \<in> set limited"
    by simp
  obtain r where r:
      "JObj [(''name'', JStr ''app.js''), (''path'', JStr ''src/app.js'')]
         = JObj [(''name'', JStr (basename r)), (''path'', JStr r)]"
      "visible_components r" "visible_name (basename r)"
    using l(2) mem by blast
  have "r = ''src/app.js''" and "basename r = ''app.js''" using r(1) by auto
  then have "visible_components ''src/app.js'' \<and> visible_name ''app.js''"
    using r(2,3) by simp
  then show ?thesis using sample_tree_listing plain by simp
qed


end
